theory Spec2Isabelle
  imports Complex_Main "HOL-Library.Multiset"
begin

section \<open>Data model (schema.ts, db/schema.ts)\<close>

text \<open>
  Instants (JavaScript \<open>Date\<close> values, \<open>timestamp\<close> columns) are integers: milliseconds
  since the epoch. A nullable column or field is an \<open>option\<close>. Strings are byte lists.
  The two coordinates are numbers of which only the presence matters here.
\<close>

datatype appointmentStatus = Received | Contacted | Confirmed | Completed | Cancelled

record createAppointmentInput =
  name :: string
  phone :: "string option"
  email :: "string option"
  tests :: "string list"
  preferred_date :: int
  notes_col :: "string option"
  address_house_no :: "string option"
  address_house_name :: "string option"
  address_street :: "string option"
  address_locality :: "string option"
  address_city :: "string option"
  address_state :: "string option"
  address_pincode :: "string option"
  lat :: "real option"
  lng :: "real option"
  slot_hint :: "string option"

text \<open>
  A row of \<open>appointmentsTable\<close>: the intake fields and the columns the system assigns.
  The field \<open>notes\<close> is called \<open>notes_col\<close> (the word is reserved).
  The column \<open>id\<close> is called \<open>id_col\<close> here.
\<close>

record appointment = createAppointmentInput +
  id_col :: int
  status :: appointmentStatus
  created_at :: int
  updated_at :: int
  last_reminder_sent_at :: "int option"
  fasting_required :: bool

text \<open>
  The input of the status update. The schema takes any number as \<open>id\<close> (\<open>z.number()\<close>
  refuses only NaN), so \<open>upd_id\<close> is a real number and not an identity of the table.
\<close>

record updateAppointmentStatusInput =
  upd_id :: real
  upd_status :: appointmentStatus
  upd_notes :: "string option option"
    \<comment> \<open>\<open>None\<close>: the key is omitted (undefined); \<open>Some None\<close>: null; \<open>Some (Some s)\<close>: a string\<close>

record getAppointmentsFilter =
  status_f :: "appointmentStatus option"
  startDate :: "int option"
  endDate :: "int option"
  search :: "string option"

record adminAuthResponse =
  success :: bool
  message :: string

record appointmentCreatedResponse = adminAuthResponse +
  appointment :: appointment

text \<open>
  The notifications a run has started, in the order the code pushes them: the channel
  and the identity of the appointment.
\<close>

datatype channel = CustomerEmail | CustomerWhatsApp | AdminEmail | AdminWhatsApp

datatype reminderChannel = ReminderEmail | ReminderWhatsApp

text \<open>
  The server's state: the table (its rows in some order), the \<open>serial\<close> sequence that
  generates identities, and the notifications sent so far.
\<close>

record world =
  table :: "appointment list"
  next_id :: int
  outbox :: "(channel \<times> int) list"

section \<open>JavaScript and SQL primitives\<close>

text \<open>Truthiness of a nullable string: null and the empty string are falsy.\<close>

definition truthy :: "string option \<Rightarrow> bool" where
  "truthy s = (case s of None \<Rightarrow> False | Some v \<Rightarrow> v \<noteq> [])"

text \<open>
  \<open>d.setHours(0, 0, 0, 0)\<close>: the start of the local day of \<open>t\<close>, in a zone at a fixed
  offset of \<open>tz\<close> milliseconds east of UTC (Asia/Kolkata, the zone the code names, has no
  daylight saving time).
\<close>

definition msPerDay :: int where
  "msPerDay = 24 * 60 * 60 * 1000"

definition startOfDay :: "int \<Rightarrow> int \<Rightarrow> int" where
  "startOfDay tz t = t - (t + tz) mod msPerDay"

text \<open>\<open>String.prototype.trim\<close>, on the ASCII white space and line terminators.\<close>

definition isWhiteSpace :: "char \<Rightarrow> bool" where
  "isWhiteSpace c = (c \<in> set [CHR 0x09, CHR 0x0A, CHR 0x0B, CHR 0x0C, CHR 0x0D, CHR 0x20])"

definition trim :: "string \<Rightarrow> string" where
  "trim s = rev (dropWhile isWhiteSpace (rev (dropWhile isWhiteSpace s)))"


text \<open>
  SQL \<open>LIKE\<close>: \<open>%\<close> matches any run of characters, \<open>_\<close> any one character, and a
  backslash makes the next pattern character literal. \<open>ILIKE\<close> compares without regard
  to (ASCII) case, and a null column matches nothing.
\<close>

definition lower :: "char \<Rightarrow> char" where
  "lower c =
     (case map_of (zip ''ABCDEFGHIJKLMNOPQRSTUVWXYZ'' ''abcdefghijklmnopqrstuvwxyz'') c of
        None \<Rightarrow> c
      | Some l \<Rightarrow> l)"

fun like_match :: "string \<Rightarrow> string \<Rightarrow> bool" where
  "like_match [] [] = True"
| "like_match [] (c # cs) = False"
| "like_match (p # ps) [] = (p = CHR ''%'' \<and> like_match ps [])"
| "like_match (p # ps) (c # cs) =
     (if p = CHR ''%'' then like_match ps (c # cs) \<or> like_match (p # ps) cs
      else if p = CHR ''_'' then like_match ps cs
      else if p = CHR 0x5C then (case ps of [] \<Rightarrow> False | q # qs \<Rightarrow> q = c \<and> like_match qs cs)
      else p = c \<and> like_match ps cs)"

definition ilike :: "string option \<Rightarrow> string \<Rightarrow> bool" where
  "ilike col pat = (case col of None \<Rightarrow> False | Some v \<Rightarrow> like_match (map lower pat) (map lower v))"

section \<open>authenticateAdmin (handlers/authenticate\_admin.ts)\<close>

text \<open>The first argument is \<open>process.env['ADMIN_PASS']\<close>: absent, or a string.\<close>

definition authenticateAdmin :: "string option \<Rightarrow> string \<Rightarrow> adminAuthResponse" where
  "authenticateAdmin adminPassword password =
     (if \<not> truthy adminPassword
      then \<lparr>success = False, message = ''Authentication system not configured''\<rparr>
      else (let isValid = (Some password = adminPassword)
            in \<lparr>success = isValid,
                message = (if isValid then ''Authentication successful'' else ''Invalid password'')\<rparr>))"

section \<open>Intake: createAppointmentInputSchema, createAppointment\<close>

text \<open>
  The schema yields the messages of the issues it finds; the input parses when there is
  none. The field checks come first, in the order of the keys, then the three
  refinements. The library's e-mail format test is a parameter.
\<close>

definition createAppointmentInputSchema ::
  "(string \<Rightarrow> bool) \<Rightarrow> int \<Rightarrow> int \<Rightarrow> createAppointmentInput \<Rightarrow> string list" where
  "createAppointmentInputSchema email_format tz now data =
     (if length (name data) < 1 then [''Name is required''] else []) @
     (case email data of
        None \<Rightarrow> []
      | Some e \<Rightarrow> if email_format e then [] else [''Invalid email format'']) @
     (if length (tests data) < 1 then [''At least one test is required''] else []) @
     (if phone data \<noteq> None \<or> email data \<noteq> None then []
      else [''At least one of phone or email is required'']) @
     (let today = startOfDay tz now
      in if preferred_date data \<ge> today then []
         else [''Preferred date cannot be in the past'']) @
     (let hasMapPin = (lat data \<noteq> None \<and> lng data \<noteq> None);
          hasMinimalAddress = (address_street data \<noteq> None \<and>
                               address_locality data \<noteq> None \<and>
                               address_city data \<noteq> None)
      in if hasMapPin \<or> hasMinimalAddress then []
         else [''Address requires either a map pin or street, locality, and city''])"

definition fastingTests :: "string list" where
  "fastingTests = [''CBC'', ''KFT'', ''Lipid Profile'']"

text \<open>
  The handler of create\_appointment.ts: derive the fasting flag, insert the row (the
  store assigns the identity, both timestamps and a null reminder time), return it.
\<close>

definition createAppointment ::
  "int \<Rightarrow> createAppointmentInput \<Rightarrow> world \<Rightarrow> appointment \<times> world" where
  "createAppointment now input w =
     (let fasting = list_ex (\<lambda>test. test \<in> set fastingTests) (tests input);
          result = \<lparr>name = name input,
                    phone = phone input,
                    email = email input,
                    tests = tests input,
                    preferred_date = preferred_date input,
                    notes_col = notes_col input,
                    address_house_no = address_house_no input,
                    address_house_name = address_house_name input,
                    address_street = address_street input,
                    address_locality = address_locality input,
                    address_city = address_city input,
                    address_state = address_state input,
                    address_pincode = address_pincode input,
                    lat = lat input,
                    lng = lng input,
                    slot_hint = slot_hint input,
                    id_col = next_id w,
                    status = Received,
                    created_at = now,
                    updated_at = now,
                    last_reminder_sent_at = None,
                    fasting_required = fasting\<rparr>
      in (result, w\<lparr>table := table w @ [result], next_id := next_id w + 1\<rparr>))"

definition bookingMessage :: string where
  "bookingMessage = ''Booking received '' @
     [CHR 0xC3, CHR 0xA2, CHR 0xE2, CHR 0x82, CHR 0xAC, CHR 0xE2, CHR 0x80, CHR 0x9D] @
     '' you will be contacted for further info.''"

text \<open>
  The boundary operation of index.ts: the input is parsed by the schema, and only a parsed
  input reaches the mutation, which calls the handler and wraps its result.
\<close>

definition createAppointment_endpoint ::
  "(string \<Rightarrow> bool) \<Rightarrow> int \<Rightarrow> int \<Rightarrow> createAppointmentInput \<Rightarrow> world
     \<Rightarrow> (string list + appointmentCreatedResponse) \<times> world" where
  "createAppointment_endpoint email_format tz now input w =
     (case createAppointmentInputSchema email_format tz now input of
        [] \<Rightarrow> (case createAppointment now input w of
                (a, w') \<Rightarrow> (Inr \<lparr>success = True, message = bookingMessage, appointment = a\<rparr>, w'))
      | issue # issues \<Rightarrow> (Inl (issue # issues), w))"

section \<open>Notification dispatcher (handlers/send\_reminders.ts)\<close>

text \<open>
  Each of the four senders logs and returns true; what is recorded is that the send was
  started for the appointment.
\<close>

definition sendAppointmentNotifications :: "appointment \<Rightarrow> world \<Rightarrow> world" where
  "sendAppointmentNotifications a w =
     (let notifications =
            (if truthy (email a) then [(CustomerEmail, id_col a)] else []) @
            (if truthy (phone a) then [(CustomerWhatsApp, id_col a)] else []) @
            [(AdminEmail, id_col a)] @
            [(AdminWhatsApp, id_col a)]
      in w\<lparr>outbox := outbox w @ notifications\<rparr>)"

section \<open>Reminder job (handlers/send\_reminders.ts)\<close>

text \<open>
  The query of \<open>sendNextDayReminders\<close>. One instant \<open>now\<close> stands for every reading of
  the clock during the run.
\<close>

definition reminderTomorrow :: "int \<Rightarrow> int \<Rightarrow> int" where
  "reminderTomorrow tz now = startOfDay tz (now + msPerDay)"

definition reminderDayAfterTomorrow :: "int \<Rightarrow> int \<Rightarrow> int" where
  "reminderDayAfterTomorrow tz now = reminderTomorrow tz now + msPerDay"

definition selectReminderAppointments :: "int \<Rightarrow> int \<Rightarrow> appointment list \<Rightarrow> appointment list" where
  "selectReminderAppointments tz now tbl =
     (let tomorrow = reminderTomorrow tz now;
          dayAfterTomorrow = reminderDayAfterTomorrow tz now
      in filter (\<lambda>a. preferred_date a \<ge> tomorrow \<and>
                      preferred_date a \<le> dayAfterTomorrow \<and>
                      (status a = Received \<or> status a = Confirmed) \<and>
                      (case last_reminder_sent_at a of
                         None \<Rightarrow> True
                       | Some t \<Rightarrow> t \<le> now - 24 * 60 * 60 * 1000)) tbl)"

text \<open>
  \<open>sendReminderNotifications\<close>. The two senders are stubs over an external transport;
  \<open>send c a\<close> is what the sender of channel \<open>c\<close> returns for \<open>a\<close> (false when the send
  failed and the sender caught it).
\<close>

definition sendReminderNotifications ::
  "(reminderChannel \<Rightarrow> appointment \<Rightarrow> bool) \<Rightarrow> appointment \<Rightarrow> bool" where
  "sendReminderNotifications send a =
     (let notifications =
            (if truthy (email a) then [send ReminderEmail a] else []) @
            (if truthy (phone a) then [send ReminderWhatsApp a] else [])
      in if length notifications = 0 then False
         else list_ex (\<lambda>result. result) notifications)"

record reminderStats =
  processed :: nat
  sent :: nat

definition markReminded :: "int \<Rightarrow> int \<Rightarrow> appointment list \<Rightarrow> appointment list" where
  "markReminded now i tbl =
     map (\<lambda>r. if id_col r = i then r\<lparr>last_reminder_sent_at := Some now, updated_at := now\<rparr> else r) tbl"

text \<open>The loop over the selected rows: the table and the two counters are the state.\<close>

fun reminderLoop ::
  "(reminderChannel \<Rightarrow> appointment \<Rightarrow> bool) \<Rightarrow> int \<Rightarrow> appointment list
     \<Rightarrow> appointment list \<times> reminderStats \<Rightarrow> appointment list \<times> reminderStats" where
  "reminderLoop send now [] st = st"
| "reminderLoop send now (a # as) (tbl, stats) =
     (let stats1 = stats\<lparr>processed := processed stats + 1\<rparr>
      in if sendReminderNotifications send a
         then reminderLoop send now as (markReminded now (id_col a) tbl, stats1\<lparr>sent := sent stats1 + 1\<rparr>)
         else reminderLoop send now as (tbl, stats1))"

definition sendNextDayReminders ::
  "(reminderChannel \<Rightarrow> appointment \<Rightarrow> bool) \<Rightarrow> int \<Rightarrow> int \<Rightarrow> appointment list
     \<Rightarrow> appointment list \<times> reminderStats" where
  "sendNextDayReminders send tz now tbl =
     reminderLoop send now (selectReminderAppointments tz now tbl) (tbl, \<lparr>processed = 0, sent = 0\<rparr>)"

section \<open>updateAppointmentStatus (handlers/update\_appointment\_status.ts)\<close>

definition updateValues :: "int \<Rightarrow> updateAppointmentStatusInput \<Rightarrow> appointment \<Rightarrow> appointment" where
  "updateValues now input r =
     (let r1 = r\<lparr>status := upd_status input, updated_at := now\<rparr>
      in case upd_notes input of
           None \<Rightarrow> r1
         | Some n \<Rightarrow> r1\<lparr>notes_col := n\<rparr>)"

text \<open>
  What the store does with the parameters of the statement. The column \<open>id\<close> is a
  32-bit integer: a number that is not whole, or not in the range of the column, makes
  the query fail, and so does a text value with a NUL character. The handler logs the
  error and throws it again.
\<close>

datatype storeError = QueryFailed

definition int4 :: "real \<Rightarrow> bool" where
  "int4 x = (real_of_int \<lfloor>x\<rfloor> = x \<and> - 2147483648 \<le> x \<and> x \<le> 2147483647)"

definition textValue :: "string option option \<Rightarrow> bool" where
  "textValue v = (case v of Some (Some s) \<Rightarrow> CHR 0x00 \<notin> set s | _ \<Rightarrow> True)"

definition updateAppointmentStatus ::
  "int \<Rightarrow> updateAppointmentStatusInput \<Rightarrow> appointment list
     \<Rightarrow> (storeError + appointment option) \<times> appointment list" where
  "updateAppointmentStatus now input tbl =
     (if \<not> int4 (upd_id input) \<or> \<not> textValue (upd_notes input) then (Inl QueryFailed, tbl)
      else
        (let tbl' = map (\<lambda>r. if real_of_int (id_col r) = upd_id input
                               then updateValues now input r else r) tbl;
             result = map (updateValues now input)
                        (filter (\<lambda>r. real_of_int (id_col r) = upd_id input) tbl)
         in case result of
              [] \<Rightarrow> (Inr None, tbl')
            | appt # _ \<Rightarrow> (Inr (Some appt), tbl')))"

section \<open>getAppointments (handlers/get\_appointments.ts)\<close>

definition searchCondition :: "string \<Rightarrow> appointment \<Rightarrow> bool" where
  "searchCondition searchTerm a =
     (ilike (Some (name a)) searchTerm \<or> ilike (phone a) searchTerm \<or> ilike (email a) searchTerm)"

definition getAppointments_conditions ::
  "getAppointmentsFilter option \<Rightarrow> (appointment \<Rightarrow> bool) list" where
  "getAppointments_conditions filter_opt =
     (case filter_opt of
        None \<Rightarrow> []
      | Some f \<Rightarrow>
          (case status_f f of None \<Rightarrow> [] | Some s \<Rightarrow> [\<lambda>a. status a = s]) @
          (case startDate f of None \<Rightarrow> [] | Some d \<Rightarrow> [\<lambda>a. preferred_date a \<ge> d]) @
          (case endDate f of None \<Rightarrow> [] | Some d \<Rightarrow> [\<lambda>a. preferred_date a \<le> d]) @
          (case search f of
             None \<Rightarrow> []
           | Some s \<Rightarrow> if s \<noteq> [] \<and> trim s \<noteq> []
                      then [searchCondition (''%'' @ trim s @ ''%'')] else []))"

text \<open>
  \<open>ORDER BY created_at DESC\<close> names no second key. The argument \<open>rows\<close> is the table in
  the order in which the store hands its rows to the sort; the sort keeps rows of equal
  \<open>created_at\<close> in that order. The table itself is a bag of rows: any arrangement of the
  same rows is the same state.
\<close>

definition getAppointments ::
  "getAppointmentsFilter option \<Rightarrow> appointment list \<Rightarrow> appointment list" where
  "getAppointments filter_opt rows =
     sort_key (\<lambda>a. - created_at a)
       (filter (\<lambda>a. list_all (\<lambda>c. c a) (getAppointments_conditions filter_opt)) rows)"

section \<open>exportAppointmentsCSV (handlers/export\_appointments\_csv.ts)\<close>





definition exportAppointmentsCSV_conditions ::
  "getAppointmentsFilter option \<Rightarrow> (appointment \<Rightarrow> bool) list" where
  "exportAppointmentsCSV_conditions filter_opt =
     (case filter_opt of
        None \<Rightarrow> []
      | Some f \<Rightarrow>
          (case status_f f of None \<Rightarrow> [] | Some s \<Rightarrow> [\<lambda>a. status a = s]) @
          (case startDate f of None \<Rightarrow> [] | Some d \<Rightarrow> [\<lambda>a. preferred_date a \<ge> d]) @
          (case endDate f of None \<Rightarrow> [] | Some d \<Rightarrow> [\<lambda>a. preferred_date a \<le> d]) @
          (case search f of
             None \<Rightarrow> []
           | Some s \<Rightarrow> if s \<noteq> [] then [searchCondition (''%'' @ s @ ''%'')] else []))"





text \<open>
  The rows the export query selects: no \<open>ORDER BY\<close>, so they come as the store hands
  them over.
\<close>

definition exportAppointmentsCSV_rows ::
  "getAppointmentsFilter option \<Rightarrow> appointment list \<Rightarrow> appointment list" where
  "exportAppointmentsCSV_rows filter_opt rows =
     filter (\<lambda>a. list_all (\<lambda>c. c a) (exportAppointmentsCSV_conditions filter_opt)) rows"


section \<open>Specification devices\<close>



text \<open>
  The reminder rule in the words of the specification: the preferred date in the next
  calendar day, its start included and the start of the day after excluded; status
  Received or Confirmed; never reminded, or reminded more than 24 hours ago.
\<close>

definition reminderDue_spec :: "int \<Rightarrow> int \<Rightarrow> appointment \<Rightarrow> bool" where
  "reminderDue_spec tz now a =
     (startOfDay tz now + msPerDay \<le> preferred_date a \<and>
      preferred_date a < startOfDay tz now + 2 * msPerDay \<and>
      (status a = Received \<or> status a = Confirmed) \<and>
      (case last_reminder_sent_at a of None \<Rightarrow> True | Some t \<Rightarrow> now - t > msPerDay))"

text \<open>The table after the rows whose identity is in \<open>S\<close> have been marked as reminded.\<close>

definition markAll :: "int \<Rightarrow> int set \<Rightarrow> appointment list \<Rightarrow> appointment list" where
  "markAll now S tbl =
     map (\<lambda>r. if id_col r \<in> S then r\<lparr>last_reminder_sent_at := Some now, updated_at := now\<rparr> else r) tbl"

section \<open>Example data\<close>

text \<open>
  The clock of the examples: 18:00 local time on a day, in a zone five and a half hours
  east of UTC. That local day starts at 844200000, the next at 930600000 and the one
  after at 1017000000.
\<close>

definition exTz :: int where
  "exTz = 19800000"

definition exNow :: int where
  "exNow = 909000000"

text \<open>An intake for 10:00 on the next day, and the row it becomes.\<close>

definition johnInput :: createAppointmentInput where
  "johnInput =
     \<lparr>name = ''John Doe'', phone = Some ''+1234567890'', email = Some ''john@example.com'',
      tests = [''Blood Test'', ''KFT''], preferred_date = 966600000,
      notes_col = Some ''Initial notes'', address_house_no = None, address_house_name = None,
      address_street = Some ''Main Street'', address_locality = Some ''Downtown'',
      address_city = Some ''Test City'', address_state = None, address_pincode = None,
      lat = None, lng = None, slot_hint = Some ''Morning preferred''\<rparr>"

definition johnRow :: appointment where
  "johnRow =
     \<lparr>name = ''John Doe'', phone = Some ''+1234567890'', email = Some ''john@example.com'',
      tests = [''Blood Test'', ''KFT''], preferred_date = 966600000,
      notes_col = Some ''Initial notes'', address_house_no = None, address_house_name = None,
      address_street = Some ''Main Street'', address_locality = Some ''Downtown'',
      address_city = Some ''Test City'', address_state = None, address_pincode = None,
      lat = None, lng = None, slot_hint = Some ''Morning preferred'',
      id_col = 1, status = Received, created_at = 900000000, updated_at = 900000000,
      last_reminder_sent_at = None, fasting_required = True\<rparr>"

definition emptyWorld :: world where
  "emptyWorld = \<lparr>table = [], next_id = 1, outbox = []\<rparr>"

text \<open>Intakes that the schema rejects, and one for 10:00 of the current day.\<close>

definition noContactInput :: createAppointmentInput where
  "noContactInput = johnInput\<lparr>phone := None, email := None\<rparr>"

definition yesterdayInput :: createAppointmentInput where
  "yesterdayInput = johnInput\<lparr>preferred_date := 844199999\<rparr>"

definition noAddressInput :: createAppointmentInput where
  "noAddressInput = johnInput\<lparr>address_city := None\<rparr>"

definition earlierTodayInput :: createAppointmentInput where
  "earlierTodayInput = johnInput\<lparr>preferred_date := 880200000\<rparr>"

text \<open>Rows for the reminder job.\<close>

definition remindedRow :: appointment where
  "remindedRow = johnRow\<lparr>last_reminder_sent_at := Some (exNow - 86400000)\<rparr>"

definition midnightRow :: appointment where
  "midnightRow = johnRow\<lparr>preferred_date := 1017000000\<rparr>"

definition farRow :: appointment where
  "farRow = johnRow\<lparr>id_col := 5, preferred_date := 1017000001\<rparr>"

definition completedRow :: appointment where
  "completedRow = johnRow\<lparr>id_col := 4, status := Completed\<rparr>"

definition noContactRow :: appointment where
  "noContactRow = johnRow\<lparr>id_col := 2, phone := None, email := None\<rparr>"

definition failingRow :: appointment where
  "failingRow = johnRow\<lparr>id_col := 3\<rparr>"

text \<open>A transport on which only the message to appointment 1 goes through.\<close>

definition exSend :: "reminderChannel \<Rightarrow> appointment \<Rightarrow> bool" where
  "exSend c a = (c = ReminderWhatsApp \<and> id_col a = 1)"


definition laterRow :: appointment where
  "laterRow = johnRow\<lparr>name := ''Mary Major'', id_col := 3, created_at := 900000010, updated_at := 900000010\<rparr>"

definition paddedSearch :: "getAppointmentsFilter option" where
  "paddedSearch = Some \<lparr>status_f = None, startDate = None, endDate = None, search = Some '' John ''\<rparr>"


section \<open>Properties\<close>

subsection \<open>The local day\<close>

lemma startOfDay_props:
  "startOfDay tz t \<le> t" "t < startOfDay tz t + msPerDay" "(startOfDay tz t + tz) mod msPerDay = 0"
proof -
  have pos: "(0::int) < msPerDay" by (simp add: msPerDay_def)
  from pos have "0 \<le> (t + tz) mod msPerDay" by simp
  then show "startOfDay tz t \<le> t" by (simp add: startOfDay_def)
  from pos have "(t + tz) mod msPerDay < msPerDay" by simp
  then show "t < startOfDay tz t + msPerDay" by (simp add: startOfDay_def)
  have "startOfDay tz t + tz = (t + tz) - (t + tz) mod msPerDay" by (simp add: startOfDay_def)
  then show "(startOfDay tz t + tz) mod msPerDay = 0" by (simp add: minus_mod_eq_mult_div)
qed

lemma reminderTomorrow_props:
  "now < reminderTomorrow tz now" "reminderTomorrow tz now \<le> now + msPerDay"
  "(reminderTomorrow tz now + tz) mod msPerDay = 0"
  "reminderTomorrow tz now = startOfDay tz now + msPerDay"
proof -
  have "now + msPerDay + tz = (now + tz) + msPerDay" by simp
  then have "(now + msPerDay + tz) mod msPerDay = (now + tz) mod msPerDay"
    by (simp only: mod_add_self2)
  then have e: "startOfDay tz (now + msPerDay) = startOfDay tz now + msPerDay"
    by (simp add: startOfDay_def)
  show "reminderTomorrow tz now = startOfDay tz now + msPerDay"
    by (simp add: reminderTomorrow_def e)
  then show "now < reminderTomorrow tz now" using startOfDay_props(2) [where t = now and tz = tz] by simp
  show "reminderTomorrow tz now \<le> now + msPerDay"
    unfolding reminderTomorrow_def by (rule startOfDay_props(1))
  show "(reminderTomorrow tz now + tz) mod msPerDay = 0"
    unfolding reminderTomorrow_def by (rule startOfDay_props(3))
qed

lemmas ex_clock = reminderTomorrow_def reminderDayAfterTomorrow_def startOfDay_def msPerDay_def
  exTz_def exNow_def

subsection \<open>Administrator authentication\<close>

text \<open>
  C10. When \<open>ADMIN_PASS\<close> is absent or the empty string, \<open>authenticateAdmin\<close> answers
  \<open>success = false\<close> with the message "Authentication system not configured" whatever
  the password, so that no password authenticates. When the secret is a non-empty
  string, \<open>success\<close> is true exactly when the password equals the secret, character
  for character.
\<close>

theorem authenticateAdmin_secret:
  "(adminPassword = None \<or> adminPassword = Some [] \<longrightarrow>
      authenticateAdmin adminPassword password =
        \<lparr>success = False, message = ''Authentication system not configured''\<rparr>) \<and>
   (secret \<noteq> [] \<longrightarrow>
      (success (authenticateAdmin (Some secret) password) \<longleftrightarrow> password = secret))"
  by (auto simp: authenticateAdmin_def truthy_def Let_def)

theorem authenticateAdmin_secret_witness:
  "authenticateAdmin None ''any_password'' =
     \<lparr>success = False, message = ''Authentication system not configured''\<rparr> \<and>
   authenticateAdmin (Some []) [] =
     \<lparr>success = False, message = ''Authentication system not configured''\<rparr> \<and>
   success (authenticateAdmin (Some ''test_password'') ''test_password'') \<and>
   \<not> success (authenticateAdmin (Some ''test_password'') [])"
  using authenticateAdmin_secret [of None "''any_password''" "''test_password''"]
        authenticateAdmin_secret [of "Some []" "[]" "''test_password''"]
        authenticateAdmin_secret [of None "''test_password''" "''test_password''"]
  by simp

subsection \<open>Intake\<close>

text \<open>
  C9. The row that \<open>createAppointment\<close> stores and returns has \<open>fasting_required\<close> true
  if and only if the requested tests contain at least one of "CBC", "KFT" and
  "Lipid Profile".
\<close>

theorem createAppointment_fasting_required:
  "(fasting_required (fst (createAppointment now input w)) \<longleftrightarrow>
      set (tests input) \<inter> {''CBC'', ''KFT'', ''Lipid Profile''} \<noteq> {}) \<and>
   table (snd (createAppointment now input w)) = table w @ [fst (createAppointment now input w)]"
  by (auto simp: createAppointment_def Let_def fastingTests_def list_ex_iff)

theorem createAppointment_fasting_required_witness:
  "fasting_required (fst (createAppointment exNow johnInput emptyWorld)) \<and>
   \<not> fasting_required (fst (createAppointment exNow (johnInput\<lparr>tests := [''X-Ray'', ''cbc'']\<rparr>) emptyWorld))"
  using createAppointment_fasting_required [of exNow johnInput emptyWorld]
        createAppointment_fasting_required [of exNow "johnInput\<lparr>tests := [''X-Ray'', ''cbc'']\<rparr>" emptyWorld]
  by (simp add: johnInput_def)

text \<open>
  C5, as the claim states it, fails: an intake for 10:00 of the current day, made at 18:00,
  has its preferred date in the past, passes the schema and is stored. The schema
  compares the date with the start of the current local day, not with the current time.
\<close>

theorem createAppointment_endpoint_earlier_today:
  "preferred_date earlierTodayInput < exNow \<and>
   \<not> isl (fst (createAppointment_endpoint (\<lambda>e. True) exTz exNow earlierTodayInput emptyWorld)) \<and>
   length (table (snd (createAppointment_endpoint (\<lambda>e. True) exTz exNow earlierTodayInput emptyWorld))) = 1"
  by (simp add: createAppointment_endpoint_def createAppointmentInputSchema_def createAppointment_def
      startOfDay_def msPerDay_def exTz_def exNow_def earlierTodayInput_def johnInput_def emptyWorld_def Let_def)

text \<open>
  C5, amended. An intake that lacks both phone and e-mail, or whose preferred date is
  before the start of the current local day, or that has neither both coordinates nor all
  of street, locality and city, is rejected by \<open>createAppointment\<close>: the caller gets the
  issues of the schema, among them the message of each rule that is broken, and the state
  (table, sequence, notifications) is unchanged. The start of the current local day is the
  latest instant not after \<open>now\<close> that is a local midnight.
\<close>

theorem createAppointment_endpoint_rejects:
  "((phone input = None \<and> email input = None) \<or>
    preferred_date input < startOfDay tz now \<or>
    (\<not> (lat input \<noteq> None \<and> lng input \<noteq> None) \<and>
     \<not> (address_street input \<noteq> None \<and> address_locality input \<noteq> None \<and> address_city input \<noteq> None))
    \<longrightarrow>
      createAppointment_endpoint email_format tz now input w =
        (Inl (createAppointmentInputSchema email_format tz now input), w) \<and>
      createAppointmentInputSchema email_format tz now input \<noteq> []) \<and>
   (phone input = None \<and> email input = None \<longrightarrow>
      ''At least one of phone or email is required''
        \<in> set (createAppointmentInputSchema email_format tz now input)) \<and>
   (preferred_date input < startOfDay tz now \<longrightarrow>
      ''Preferred date cannot be in the past''
        \<in> set (createAppointmentInputSchema email_format tz now input)) \<and>
   (\<not> (lat input \<noteq> None \<and> lng input \<noteq> None) \<and>
    \<not> (address_street input \<noteq> None \<and> address_locality input \<noteq> None \<and> address_city input \<noteq> None) \<longrightarrow>
      ''Address requires either a map pin or street, locality, and city''
        \<in> set (createAppointmentInputSchema email_format tz now input)) \<and>
   startOfDay tz now \<le> now \<and> now < startOfDay tz now + msPerDay \<and>
   (startOfDay tz now + tz) mod msPerDay = 0"
proof -
  let ?issues = "createAppointmentInputSchema email_format tz now input"
  have e: "?issues \<noteq> [] \<Longrightarrow> createAppointment_endpoint email_format tz now input w = (Inl ?issues, w)"
    by (cases ?issues) (simp_all add: createAppointment_endpoint_def)
  have a: "phone input = None \<and> email input = None \<longrightarrow>
      ''At least one of phone or email is required'' \<in> set ?issues"
    by (simp add: createAppointmentInputSchema_def)
  have b: "preferred_date input < startOfDay tz now \<longrightarrow>
      ''Preferred date cannot be in the past'' \<in> set ?issues"
    by (simp add: createAppointmentInputSchema_def Let_def)
  have c: "\<not> (lat input \<noteq> None \<and> lng input \<noteq> None) \<and>
    \<not> (address_street input \<noteq> None \<and> address_locality input \<noteq> None \<and> address_city input \<noteq> None) \<longrightarrow>
      ''Address requires either a map pin or street, locality, and city'' \<in> set ?issues"
    by (simp add: createAppointmentInputSchema_def Let_def)
  have ne: "(phone input = None \<and> email input = None) \<or>
    preferred_date input < startOfDay tz now \<or>
    (\<not> (lat input \<noteq> None \<and> lng input \<noteq> None) \<and>
     \<not> (address_street input \<noteq> None \<and> address_locality input \<noteq> None \<and> address_city input \<noteq> None))
    \<Longrightarrow> ?issues \<noteq> []"
    using a b c by (metis empty_iff list.set(1))
  show ?thesis
    using a b c e ne startOfDay_props [where tz = tz and t = now] by blast
qed

theorem createAppointment_endpoint_rejects_witness:
  "fst (createAppointment_endpoint (\<lambda>e. True) exTz exNow noContactInput emptyWorld) =
     Inl [''At least one of phone or email is required''] \<and>
   snd (createAppointment_endpoint (\<lambda>e. True) exTz exNow noContactInput emptyWorld) = emptyWorld \<and>
   isl (fst (createAppointment_endpoint (\<lambda>e. True) exTz exNow yesterdayInput emptyWorld)) \<and>
   snd (createAppointment_endpoint (\<lambda>e. True) exTz exNow yesterdayInput emptyWorld) = emptyWorld \<and>
   isl (fst (createAppointment_endpoint (\<lambda>e. True) exTz exNow noAddressInput emptyWorld)) \<and>
   snd (createAppointment_endpoint (\<lambda>e. True) exTz exNow noAddressInput emptyWorld) = emptyWorld"
  using createAppointment_endpoint_rejects [of noContactInput exTz exNow "\<lambda>e. True" emptyWorld]
        createAppointment_endpoint_rejects [of yesterdayInput exTz exNow "\<lambda>e. True" emptyWorld]
        createAppointment_endpoint_rejects [of noAddressInput exTz exNow "\<lambda>e. True" emptyWorld]
  by (simp add: ex_clock noContactInput_def yesterdayInput_def noAddressInput_def johnInput_def
      createAppointmentInputSchema_def)

text \<open>Whatever the intake, the boundary operation leaves the notifications as they were.\<close>

lemma createAppointment_endpoint_outbox:
  "outbox (snd (createAppointment_endpoint email_format tz now input w)) = outbox w"
  by (simp add: createAppointment_endpoint_def createAppointment_def Let_def split: list.splits)

text \<open>
  C1. The boundary operation, on a valid intake with e-mail and phone, returns success
  and stores the row, and no notification has been started: \<open>sendAppointmentNotifications\<close>
  is never called. Called on the stored row it would have started the four sends the
  claim lists.
\<close>

theorem createAppointment_endpoint_no_notification:
  "\<not> isl (fst (createAppointment_endpoint (\<lambda>e. True) exTz exNow johnInput emptyWorld)) \<and>
   outbox (snd (createAppointment_endpoint (\<lambda>e. True) exTz exNow johnInput emptyWorld)) = [] \<and>
   outbox (sendAppointmentNotifications
             (fst (createAppointment exNow johnInput emptyWorld))
             (snd (createAppointment exNow johnInput emptyWorld))) =
     [(CustomerEmail, 1), (CustomerWhatsApp, 1), (AdminEmail, 1), (AdminWhatsApp, 1)]"
  by (simp add: createAppointment_endpoint_def createAppointmentInputSchema_def createAppointment_def
      sendAppointmentNotifications_def truthy_def
      startOfDay_def msPerDay_def exTz_def exNow_def johnInput_def emptyWorld_def Let_def)

subsection \<open>Status update\<close>

lemma updateValues_fields:
  "id_col (updateValues now input r) = id_col r"
  "status (updateValues now input r) = upd_status input"
  "updated_at (updateValues now input r) = now"
  "notes_col (updateValues now input r) = (case upd_notes input of None \<Rightarrow> notes_col r | Some n \<Rightarrow> n)"
  "(updateValues now input r)\<lparr>status := status r, updated_at := updated_at r, notes_col := notes_col r\<rparr> = r"
  by (simp_all add: updateValues_def Let_def split: option.splits)

lemma updateAppointmentStatus_table:
  "snd (updateAppointmentStatus now input tbl) =
     (if int4 (upd_id input) \<and> textValue (upd_notes input)
      then map (\<lambda>r. if real_of_int (id_col r) = upd_id input then updateValues now input r else r) tbl
      else tbl)"
  by (simp add: updateAppointmentStatus_def Let_def split: list.splits)

text \<open>
  C4, as the claim states it, fails: the schema lets the identity 2147483648 through, no
  row has it, and the call does not answer "absent": the query fails on a value that the
  integer column cannot hold, and the handler throws.
\<close>

theorem updateAppointmentStatus_out_of_range:
  "real_of_int (id_col johnRow) \<noteq> 2147483648 \<and>
   updateAppointmentStatus exNow \<lparr>upd_id = 2147483648, upd_status = Confirmed, upd_notes = None\<rparr> [johnRow] =
     (Inl QueryFailed, [johnRow])"
  by (simp add: updateAppointmentStatus_def int4_def johnRow_def)

text \<open>
  C4, amended. For a call of \<open>updateAppointmentStatus\<close> whose identity is a whole number
  in the range of the 32-bit key and whose notes, when a string, have no NUL character:
  when no row has the given identity the result is absent and the table is unchanged; when
  a row has it, the result is that row after the update, in the table every row with the
  identity is replaced by its update and every other row is kept. The update of a row
  \<open>r0\<close> sets the status, sets \<open>updated_at\<close> to the current time, keeps the notes when
  \<open>notes\<close> is omitted, clears them when \<open>notes\<close> is null, replaces them when it is a
  string, and changes no other field. Any other call fails with the error of the store
  and leaves the table unchanged.
\<close>

theorem updateAppointmentStatus_spec:
  "(int4 (upd_id input) \<and> textValue (upd_notes input) \<longrightarrow>
     ((\<forall>r \<in> set tbl. real_of_int (id_col r) \<noteq> upd_id input) \<longrightarrow>
        updateAppointmentStatus now input tbl = (Inr None, tbl)) \<and>
     ((\<exists>r \<in> set tbl. real_of_int (id_col r) = upd_id input) \<longrightarrow>
        (\<exists>r \<in> set tbl. real_of_int (id_col r) = upd_id input \<and>
           fst (updateAppointmentStatus now input tbl) = Inr (Some (updateValues now input r)))) \<and>
     length (snd (updateAppointmentStatus now input tbl)) = length tbl \<and>
     (\<forall>i < length tbl.
        snd (updateAppointmentStatus now input tbl) ! i =
          (if real_of_int (id_col (tbl ! i)) = upd_id input
           then updateValues now input (tbl ! i) else tbl ! i))) \<and>
   (\<not> (int4 (upd_id input) \<and> textValue (upd_notes input)) \<longrightarrow>
      updateAppointmentStatus now input tbl = (Inl QueryFailed, tbl)) \<and>
   (int4 x \<longleftrightarrow> x \<in> \<int> \<and> - (2 ^ 31) \<le> x \<and> x < 2 ^ 31) \<and>
   (textValue (upd_notes input) \<longleftrightarrow> (\<forall>t. upd_notes input = Some (Some t) \<longrightarrow> CHR 0x00 \<notin> set t)) \<and>
   id_col (updateValues now input r0) = id_col r0 \<and>
   status (updateValues now input r0) = upd_status input \<and>
   updated_at (updateValues now input r0) = now \<and>
   (upd_notes input = None \<longrightarrow> notes_col (updateValues now input r0) = notes_col r0) \<and>
   (upd_notes input = Some None \<longrightarrow> notes_col (updateValues now input r0) = None) \<and>
   (upd_notes input = Some (Some s) \<longrightarrow> notes_col (updateValues now input r0) = Some s) \<and>
   (updateValues now input r0)\<lparr>status := status r0, updated_at := updated_at r0,
      notes_col := notes_col r0\<rparr> = r0"
proof -
  let ?P = "\<lambda>r. real_of_int (id_col r) = upd_id input"
  let ?ok = "int4 (upd_id input) \<and> textValue (upd_notes input)"
  have none: "?ok \<Longrightarrow> \<forall>r \<in> set tbl. \<not> ?P r \<Longrightarrow>
      updateAppointmentStatus now input tbl = (Inr None, tbl)"
  proof -
    assume ok: ?ok and a: "\<forall>r \<in> set tbl. \<not> ?P r"
    from a have "filter ?P tbl = []"
      by (simp add: filter_empty_conv)
    moreover from a have "map (\<lambda>r. if ?P r then updateValues now input r else r) tbl = tbl"
      by (simp add: map_idI)
    ultimately show "updateAppointmentStatus now input tbl = (Inr None, tbl)"
      using ok by (simp add: updateAppointmentStatus_def)
  qed
  have some: "?ok \<Longrightarrow> \<exists>r \<in> set tbl. ?P r \<Longrightarrow>
      \<exists>r \<in> set tbl. ?P r \<and>
         fst (updateAppointmentStatus now input tbl) = Inr (Some (updateValues now input r))"
  proof -
    assume ok: ?ok and ex: "\<exists>r \<in> set tbl. ?P r"
    show "\<exists>r \<in> set tbl. ?P r \<and>
         fst (updateAppointmentStatus now input tbl) = Inr (Some (updateValues now input r))"
    proof (cases "filter ?P tbl")
      case Nil
      then have "\<forall>r \<in> set tbl. \<not> ?P r"
        by (simp add: filter_empty_conv)
      with ex show ?thesis by blast
    next
      case (Cons x xs)
      then have "x \<in> set (filter ?P tbl)" by simp
      then have x: "x \<in> set tbl" "?P x" by simp_all
      from Cons ok have "fst (updateAppointmentStatus now input tbl) = Inr (Some (updateValues now input x))"
        by (simp add: updateAppointmentStatus_def)
      with x show ?thesis by blast
    qed
  qed
  have rows: "?ok \<Longrightarrow> \<forall>i < length tbl.
      snd (updateAppointmentStatus now input tbl) ! i =
        (if ?P (tbl ! i) then updateValues now input (tbl ! i) else tbl ! i)"
    by (simp add: updateAppointmentStatus_table)
  have len: "length (snd (updateAppointmentStatus now input tbl)) = length tbl"
    by (simp add: updateAppointmentStatus_table)
  have fail: "\<not> ?ok \<longrightarrow> updateAppointmentStatus now input tbl = (Inl QueryFailed, tbl)"
    by (auto simp: updateAppointmentStatus_def)
  have i4: "int4 x \<longleftrightarrow> x \<in> \<int> \<and> - (2 ^ 31) \<le> x \<and> x < 2 ^ 31"
  proof (cases "x \<in> \<int>")
    case True
    then obtain n :: int where n: "x = real_of_int n" by (auto elim: Ints_cases)
    have "(n \<le> 2147483647) = (n < 2147483648)" by arith
    then have "(real_of_int n \<le> 2147483647) = (real_of_int n < 2147483648)" by linarith
    then show ?thesis by (simp add: int4_def n)
  next
    case False
    have "real_of_int \<lfloor>x\<rfloor> \<in> \<int>" by (rule Ints_of_int)
    with False have "real_of_int \<lfloor>x\<rfloor> \<noteq> x" by auto
    with False show ?thesis by (simp add: int4_def)
  qed
  have tv: "textValue (upd_notes input) \<longleftrightarrow>
      (\<forall>t. upd_notes input = Some (Some t) \<longrightarrow> CHR 0x00 \<notin> set t)"
    by (auto simp: textValue_def split: option.splits)
  from none some len rows fail i4 tv show ?thesis
    by (simp add: updateValues_fields)
qed

theorem updateAppointmentStatus_spec_witness:
  "updateAppointmentStatus exNow \<lparr>upd_id = 999, upd_status = Confirmed, upd_notes = None\<rparr> [johnRow] =
     (Inr None, [johnRow]) \<and>
   fst (updateAppointmentStatus exNow \<lparr>upd_id = 1, upd_status = Confirmed, upd_notes = None\<rparr> [johnRow]) =
     Inr (Some (updateValues exNow \<lparr>upd_id = 1, upd_status = Confirmed, upd_notes = None\<rparr> johnRow)) \<and>
   notes_col (updateValues exNow \<lparr>upd_id = 1, upd_status = Confirmed, upd_notes = None\<rparr> johnRow) =
     Some ''Initial notes'' \<and>
   notes_col (updateValues exNow \<lparr>upd_id = 1, upd_status = Confirmed, upd_notes = Some None\<rparr> johnRow) =
     None \<and>
   notes_col (updateValues exNow \<lparr>upd_id = 1, upd_status = Confirmed, upd_notes = Some (Some ''Called'')\<rparr> johnRow) =
     Some ''Called'' \<and>
   updated_at (updateValues exNow \<lparr>upd_id = 1, upd_status = Confirmed, upd_notes = None\<rparr> johnRow) = exNow \<and>
   updateAppointmentStatus exNow \<lparr>upd_id = 3 / 2, upd_status = Confirmed, upd_notes = None\<rparr> [johnRow] =
     (Inl QueryFailed, [johnRow])"
proof -
  have ok: "int4 999" "int4 1" "\<not> int4 (3 / 2)"
    by (simp_all add: int4_def)
  have tv: "textValue None" "textValue (Some None)" "textValue (Some (Some ''Called''))"
    by (simp_all add: textValue_def)
  show ?thesis
    using updateAppointmentStatus_spec
            [of "\<lparr>upd_id = 999, upd_status = Confirmed, upd_notes = None\<rparr>" "[johnRow]" exNow 0 johnRow "[]"]
          updateAppointmentStatus_spec
            [of "\<lparr>upd_id = 1, upd_status = Confirmed, upd_notes = None\<rparr>" "[johnRow]" exNow 0 johnRow "[]"]
          updateAppointmentStatus_spec
            [of "\<lparr>upd_id = 1, upd_status = Confirmed, upd_notes = Some None\<rparr>" "[johnRow]" exNow 0 johnRow "[]"]
          updateAppointmentStatus_spec
            [of "\<lparr>upd_id = 1, upd_status = Confirmed, upd_notes = Some (Some ''Called'')\<rparr>" "[johnRow]" exNow 0 johnRow "''Called''"]
          updateAppointmentStatus_spec
            [of "\<lparr>upd_id = 3 / 2, upd_status = Confirmed, upd_notes = None\<rparr>" "[johnRow]" exNow 0 johnRow "[]"]
          ok tv
    by (simp add: johnRow_def)
qed

subsection \<open>Query\<close>







subsection \<open>CSV export\<close>







text \<open>
  C3. The export does not render the rows that \<open>getAppointments\<close> returns. With the
  search text " John " the query trims the text and finds John Doe, the export does not
  trim and finds nothing: that is the defect. With two rows and no filter the query
  returns the later one first and the export keeps the order of the store, as its own
  test expects (its query has no \<open>ORDER BY\<close>): the orders differ as well.
\<close>

theorem exportAppointmentsCSV_not_getAppointments:
  "getAppointments paddedSearch [johnRow] = [johnRow] \<and>
   exportAppointmentsCSV_rows paddedSearch [johnRow] = [] \<and>
   getAppointments None [johnRow, laterRow] = [laterRow, johnRow] \<and>
   exportAppointmentsCSV_rows None [johnRow, laterRow] = [johnRow, laterRow]"
  by (simp add: getAppointments_def getAppointments_conditions_def exportAppointmentsCSV_rows_def
      exportAppointmentsCSV_conditions_def searchCondition_def ilike_def lower_def trim_def
      isWhiteSpace_def paddedSearch_def laterRow_def johnRow_def)

subsection \<open>Reminder job\<close>

text \<open>
  C2, as the claim states it, fails: a row for tomorrow that was reminded exactly 24 hours
  ago is selected, although it was not reminded more than 24 hours ago.
\<close>

theorem selectReminderAppointments_exactly_24h:
  "remindedRow \<in> set (selectReminderAppointments exTz exNow [remindedRow]) \<and>
   \<not> reminderDue_spec exTz exNow remindedRow"
  by (simp add: selectReminderAppointments_def reminderTomorrow_def reminderDayAfterTomorrow_def
      startOfDay_def msPerDay_def exTz_def exNow_def remindedRow_def johnRow_def reminderDue_spec_def)

text \<open>
  The upper bound of the window is included as well: a row dated exactly at the start of
  the day after tomorrow is selected.
\<close>

lemma selectReminderAppointments_midnight:
  "preferred_date midnightRow = reminderDayAfterTomorrow exTz exNow \<and>
   midnightRow \<in> set (selectReminderAppointments exTz exNow [midnightRow])"
  by (simp add: selectReminderAppointments_def reminderTomorrow_def reminderDayAfterTomorrow_def
      startOfDay_def msPerDay_def exTz_def exNow_def midnightRow_def johnRow_def)

text \<open>
  C2, amended. Of the rows whose preferred date is not exactly the start of the day after
  tomorrow, \<open>sendNextDayReminders\<close> selects exactly those of the table whose preferred
  date is at or after the start of tomorrow and before the start of the day after
  tomorrow, whose status is Received or Confirmed, and that were never reminded or were
  reminded at least 24 hours ago. A row dated after the start of the day after tomorrow
  is never selected, nor is a Completed row. The start of tomorrow is the first local
  midnight after \<open>now\<close>, the start of the day after is 24 hours later.
\<close>

theorem selectReminderAppointments_window:
  "(preferred_date a \<noteq> reminderDayAfterTomorrow tz now \<longrightarrow>
      (a \<in> set (selectReminderAppointments tz now tbl) \<longleftrightarrow>
         a \<in> set tbl \<and>
         reminderTomorrow tz now \<le> preferred_date a \<and>
         preferred_date a < reminderDayAfterTomorrow tz now \<and>
         (status a = Received \<or> status a = Confirmed) \<and>
         (last_reminder_sent_at a = None \<or>
          (\<exists>t. last_reminder_sent_at a = Some t \<and> now - t \<ge> msPerDay)))) \<and>
   (preferred_date a > reminderDayAfterTomorrow tz now \<longrightarrow>
      a \<notin> set (selectReminderAppointments tz now tbl)) \<and>
   (status a = Completed \<longrightarrow> a \<notin> set (selectReminderAppointments tz now tbl)) \<and>
   reminderTomorrow tz now = startOfDay tz now + msPerDay \<and>
   reminderDayAfterTomorrow tz now = startOfDay tz now + 2 * msPerDay \<and>
   startOfDay tz now \<le> now \<and> now < startOfDay tz now + msPerDay \<and>
   (startOfDay tz now + tz) mod msPerDay = 0"
proof -
  have m: "a \<in> set (selectReminderAppointments tz now tbl) \<longleftrightarrow>
         a \<in> set tbl \<and>
         reminderTomorrow tz now \<le> preferred_date a \<and>
         preferred_date a \<le> reminderDayAfterTomorrow tz now \<and>
         (status a = Received \<or> status a = Confirmed) \<and>
         (last_reminder_sent_at a = None \<or>
          (\<exists>t. last_reminder_sent_at a = Some t \<and> now - t \<ge> msPerDay))"
    by (auto simp: selectReminderAppointments_def Let_def msPerDay_def split: option.splits)
  have d: "reminderDayAfterTomorrow tz now = startOfDay tz now + 2 * msPerDay"
    by (simp add: reminderDayAfterTomorrow_def reminderTomorrow_props(4))
  have c1: "preferred_date a \<noteq> reminderDayAfterTomorrow tz now \<longrightarrow>
      (a \<in> set (selectReminderAppointments tz now tbl) \<longleftrightarrow>
         a \<in> set tbl \<and>
         reminderTomorrow tz now \<le> preferred_date a \<and>
         preferred_date a < reminderDayAfterTomorrow tz now \<and>
         (status a = Received \<or> status a = Confirmed) \<and>
         (last_reminder_sent_at a = None \<or>
          (\<exists>t. last_reminder_sent_at a = Some t \<and> now - t \<ge> msPerDay)))"
    unfolding m by auto
  have c2: "preferred_date a > reminderDayAfterTomorrow tz now \<longrightarrow>
      a \<notin> set (selectReminderAppointments tz now tbl)"
    unfolding m by auto
  have c3: "status a = Completed \<longrightarrow> a \<notin> set (selectReminderAppointments tz now tbl)"
    unfolding m by auto
  show ?thesis
    using c1 c2 c3 d reminderTomorrow_props(4) [where tz = tz and now = now] startOfDay_props [where tz = tz and t = now]
    by blast
qed

theorem selectReminderAppointments_window_witness:
  "johnRow \<in> set (selectReminderAppointments exTz exNow [johnRow, farRow, completedRow]) \<and>
   farRow \<notin> set (selectReminderAppointments exTz exNow [johnRow, farRow, completedRow]) \<and>
   completedRow \<notin> set (selectReminderAppointments exTz exNow [johnRow, farRow, completedRow])"
  using selectReminderAppointments_window [of johnRow exTz exNow "[johnRow, farRow, completedRow]"]
        selectReminderAppointments_window [of farRow exTz exNow "[johnRow, farRow, completedRow]"]
        selectReminderAppointments_window [of completedRow exTz exNow "[johnRow, farRow, completedRow]"]
  by (simp add: ex_clock johnRow_def farRow_def completedRow_def)

lemma sendReminderNotifications_iff:
  "sendReminderNotifications send a \<longleftrightarrow>
     (truthy (email a) \<and> send ReminderEmail a) \<or> (truthy (phone a) \<and> send ReminderWhatsApp a)"
  by (auto simp: sendReminderNotifications_def Let_def)

lemma markReminded_markAll:
  "markReminded now i (markAll now S tbl) = markAll now (insert i S) tbl"
  by (induction tbl) (simp_all add: markReminded_def markAll_def)

lemma markAll_empty: "markAll now {} tbl = tbl"
  by (simp add: markAll_def)

lemma reminderLoop_general:
  "reminderLoop send now as (markAll now S tbl, stats) =
   (markAll now (S \<union> id_col ` {a \<in> set as. sendReminderNotifications send a}) tbl,
    stats\<lparr>processed := processed stats + length as,
          sent := sent stats + length (filter (sendReminderNotifications send) as)\<rparr>)"
proof (induction as arbitrary: S stats)
  case Nil
  show ?case by simp
next
  case (Cons a as)
  show ?case
  proof (cases "sendReminderNotifications send a")
    case True
    have s: "insert (id_col a) S \<union> id_col ` {x \<in> set as. sendReminderNotifications send x} =
             S \<union> id_col ` {x \<in> set (a # as). sendReminderNotifications send x}"
      using True by auto
    have "reminderLoop send now (a # as) (markAll now S tbl, stats) =
          reminderLoop send now as (markAll now (insert (id_col a) S) tbl,
            stats\<lparr>processed := processed stats + 1, sent := sent stats + 1\<rparr>)"
      using True by (simp add: Let_def markReminded_markAll)
    also have "\<dots> = (markAll now (insert (id_col a) S \<union> id_col ` {x \<in> set as. sendReminderNotifications send x}) tbl,
          stats\<lparr>processed := processed stats + 1 + length as,
                sent := sent stats + 1 + length (filter (sendReminderNotifications send) as)\<rparr>)"
      by (simp add: Cons.IH)
    finally show ?thesis
      unfolding s using True by simp
  next
    case False
    have s: "S \<union> id_col ` {x \<in> set as. sendReminderNotifications send x} =
             S \<union> id_col ` {x \<in> set (a # as). sendReminderNotifications send x}"
      using False by auto
    have "reminderLoop send now (a # as) (markAll now S tbl, stats) =
          reminderLoop send now as (markAll now S tbl, stats\<lparr>processed := processed stats + 1\<rparr>)"
      using False by (simp add: Let_def)
    also have "\<dots> = (markAll now (S \<union> id_col ` {x \<in> set as. sendReminderNotifications send x}) tbl,
          stats\<lparr>processed := processed stats + 1 + length as,
                sent := sent stats + length (filter (sendReminderNotifications send) as)\<rparr>)"
      by (simp add: Cons.IH)
    finally show ?thesis
      unfolding s using False by simp
  qed
qed

lemma select_subset: "set (selectReminderAppointments tz now tbl) \<subseteq> set tbl"
  by (simp add: selectReminderAppointments_def Let_def)

text \<open>
  C6. In a run of \<open>sendNextDayReminders\<close> on a table whose identities are pairwise
  different (\<open>id\<close> is the primary key): \<open>processed\<close> is the number of selected rows;
  \<open>sent\<close> is the number of selected rows for which the e-mail send (when there is an
  e-mail) or the message send (when there is a phone) succeeds; exactly those rows get
  \<open>last_reminder_sent_at\<close> and \<open>updated_at\<close> set to \<open>now\<close>, every other row is
  unchanged; a row with neither e-mail nor phone is never sent. A failed send changes
  neither the count of the rows processed nor the fate of any other row.
\<close>

theorem sendNextDayReminders_counts:
  assumes "distinct (map id_col tbl)"
  shows "processed (snd (sendNextDayReminders send tz now tbl)) =
           length (selectReminderAppointments tz now tbl) \<and>
         sent (snd (sendNextDayReminders send tz now tbl)) =
           length (filter (\<lambda>a. (truthy (email a) \<and> send ReminderEmail a) \<or>
                                (truthy (phone a) \<and> send ReminderWhatsApp a))
                     (selectReminderAppointments tz now tbl)) \<and>
         fst (sendNextDayReminders send tz now tbl) =
           map (\<lambda>r. if r \<in> set (selectReminderAppointments tz now tbl) \<and>
                        ((truthy (email r) \<and> send ReminderEmail r) \<or>
                         (truthy (phone r) \<and> send ReminderWhatsApp r))
                     then r\<lparr>last_reminder_sent_at := Some now, updated_at := now\<rparr>
                     else r) tbl \<and>
         (\<not> truthy (email a) \<and> \<not> truthy (phone a) \<longrightarrow> \<not> sendReminderNotifications send a)"
proof -
  let ?sel = "selectReminderAppointments tz now tbl"
  let ?ok = "\<lambda>a. (truthy (email a) \<and> send ReminderEmail a) \<or> (truthy (phone a) \<and> send ReminderWhatsApp a)"
  have ok: "sendReminderNotifications send = ?ok"
    by (rule ext) (rule sendReminderNotifications_iff)
  have run: "sendNextDayReminders send tz now tbl =
    (markAll now (id_col ` {a \<in> set ?sel. ?ok a}) tbl,
     \<lparr>processed = length ?sel, sent = length (filter ?ok ?sel)\<rparr>)"
    using reminderLoop_general [of send now ?sel "{}" tbl "\<lparr>processed = 0, sent = 0\<rparr>"]
    by (simp add: sendNextDayReminders_def markAll_empty ok)
  have inj: "inj_on id_col (set tbl)"
    using assms by (simp add: distinct_map)
  have mem: "\<And>r. r \<in> set tbl \<Longrightarrow>
      (id_col r \<in> id_col ` {a \<in> set ?sel. ?ok a}) = (r \<in> set ?sel \<and> ?ok r)"
  proof -
    fix r assume r: "r \<in> set tbl"
    show "(id_col r \<in> id_col ` {a \<in> set ?sel. ?ok a}) = (r \<in> set ?sel \<and> ?ok r)"
    proof
      assume "id_col r \<in> id_col ` {a \<in> set ?sel. ?ok a}"
      then obtain a where a: "a \<in> set ?sel" "?ok a" "id_col a = id_col r" by auto
      from a(1) select_subset have "a \<in> set tbl" by blast
      with inj r a(3) have "a = r" by (simp add: inj_on_def)
      with a show "r \<in> set ?sel \<and> ?ok r" by simp
    next
      assume "r \<in> set ?sel \<and> ?ok r"
      then show "id_col r \<in> id_col ` {a \<in> set ?sel. ?ok a}" by blast
    qed
  qed
  have tbl: "fst (sendNextDayReminders send tz now tbl) =
           map (\<lambda>r. if r \<in> set ?sel \<and> ?ok r
                     then r\<lparr>last_reminder_sent_at := Some now, updated_at := now\<rparr>
                     else r) tbl"
    unfolding run fst_conv markAll_def by (rule map_cong) (simp_all add: mem)
  have neither: "\<not> truthy (email a) \<and> \<not> truthy (phone a) \<longrightarrow> \<not> sendReminderNotifications send a"
    by (simp add: sendReminderNotifications_iff)
  from run tbl neither show ?thesis by simp
qed

theorem sendNextDayReminders_counts_witness:
  "processed (snd (sendNextDayReminders exSend exTz exNow [johnRow, noContactRow, failingRow, completedRow])) = 3 \<and>
   sent (snd (sendNextDayReminders exSend exTz exNow [johnRow, noContactRow, failingRow, completedRow])) = 1 \<and>
   fst (sendNextDayReminders exSend exTz exNow [johnRow, noContactRow, failingRow, completedRow]) =
     [johnRow\<lparr>last_reminder_sent_at := Some exNow, updated_at := exNow\<rparr>, noContactRow, failingRow, completedRow]"
proof -
  have d: "distinct (map id_col [johnRow, noContactRow, failingRow, completedRow])"
    by (simp add: johnRow_def noContactRow_def failingRow_def completedRow_def)
  have sel: "selectReminderAppointments exTz exNow [johnRow, noContactRow, failingRow, completedRow] =
      [johnRow, noContactRow, failingRow]"
    by (simp add: selectReminderAppointments_def ex_clock johnRow_def noContactRow_def failingRow_def completedRow_def)
  show ?thesis
    using sendNextDayReminders_counts [OF d, of exSend exTz exNow]
    unfolding sel
    by (simp add: exSend_def truthy_def johnRow_def noContactRow_def failingRow_def completedRow_def)
qed

end
